theory Spec2Isabelle
  imports Complex_Main "HOL-Library.AList" "HOL-Library.Sublist"
begin

section \<open>Python values and string operations\<close>

text \<open>
  The values the program moves around are the ones JSON knows, as Python holds them:
  \<open>None\<close>, booleans, integers, floats, strings, lists and dictionaries with string keys.
  A Python \<open>dict\<close> keeps its keys in insertion order and holds each key once, so it is an
  association list: \<open>map_of\<close> reads an entry, \<open>AList.update\<close> is the assignment
  \<open>d[k] = v\<close> (the value is replaced in place when the key is there, the pair is appended
  otherwise) and \<open>AList.delete\<close> is \<open>del d[k]\<close>.
  A string is the list of its code points, which are taken below 256 (a \<open>char\<close> has
  eight bits). White space is what \<open>str.isspace\<close> accepts in that range; case is converted
  for the ASCII letters, which are the letters of the widget types.
  Python's \<open>==\<close> identifies \<open>1\<close>, \<open>1.0\<close> and \<open>True\<close>; every comparison of the modelled code
  has a string on one side, where \<open>==\<close> is the equality of these values.
\<close>

datatype py_value =
    PNone
  | PBool bool
  | PInt int
  | PFloat real
  | PStr string
  | PList "py_value list"
  | PDict "(string \<times> py_value) list"

text \<open>The exceptions that the modelled functions can raise.\<close>

datatype error = KeyError | ValueError | TypeError | AttributeError | JSONDecodeError | StoreError

definition bind_err :: "error + 'a \<Rightarrow> ('a \<Rightarrow> error + 'b) \<Rightarrow> error + 'b" where
  "bind_err m f = (case m of Inl e \<Rightarrow> Inl e | Inr x \<Rightarrow> f x)"

text \<open>Truth value of an object, as \<open>if x:\<close> tests it.\<close>

fun truthy :: "py_value \<Rightarrow> bool" where
  "truthy PNone = False"
| "truthy (PBool b) = b"
| "truthy (PInt i) = (i \<noteq> 0)"
| "truthy (PFloat r) = (r \<noteq> 0)"
| "truthy (PStr s) = (s \<noteq> [])"
| "truthy (PList xs) = (xs \<noteq> [])"
| "truthy (PDict kvs) = (kvs \<noteq> [])"

definition ascii_lowercase :: string where
  "ascii_lowercase = ''abcdefghijklmnopqrstuvwxyz''"

definition ascii_uppercase :: string where
  "ascii_uppercase = ''ABCDEFGHIJKLMNOPQRSTUVWXYZ''"

definition to_upper :: "char \<Rightarrow> char" where
  "to_upper c = (case map_of (zip ascii_lowercase ascii_uppercase) c of Some u \<Rightarrow> u | None \<Rightarrow> c)"

definition to_lower :: "char \<Rightarrow> char" where
  "to_lower c = (case map_of (zip ascii_uppercase ascii_lowercase) c of Some l \<Rightarrow> l | None \<Rightarrow> c)"

text \<open>\<open>str.capitalize()\<close>: the first character in upper case, the rest in lower case.\<close>

definition capitalize :: "string \<Rightarrow> string" where
  "capitalize s = (case s of [] \<Rightarrow> [] | c # cs \<Rightarrow> to_upper c # map to_lower cs)"

text \<open>
  \<open>str.split(sep)\<close> with a one-character separator: the pieces between the separators,
  empty pieces included, so the empty string gives one empty piece.
\<close>

fun split_on :: "char \<Rightarrow> string \<Rightarrow> string list" where
  "split_on sep [] = [[]]"
| "split_on sep (c # cs) =
     (if c = sep then [] # split_on sep cs
      else (case split_on sep cs of [] \<Rightarrow> [[c]] | w # ws \<Rightarrow> (c # w) # ws))"

text \<open>
  \<open>str.strip()\<close>: white space removed from both ends. The white space characters below
  256 are the tab, line feed, vertical tab, form feed and carriage return (9 to 13), the
  four separators 28 to 31, the space, the next-line character U+0085 and the no-break
  space U+00A0.
\<close>

definition is_space :: "char \<Rightarrow> bool" where
  "is_space c = (c \<in> set [CHR 0x09, CHR 0x0A, CHR 0x0B, CHR 0x0C, CHR 0x0D,
                           CHR 0x1C, CHR 0x1D, CHR 0x1E, CHR 0x1F, CHR 0x20,
                           CHR 0x85, CHR 0xA0])"

definition strip :: "string \<Rightarrow> string" where
  "strip s = rev (dropWhile is_space (rev (dropWhile is_space s)))"

text \<open>\<open>sep.join(pieces)\<close> on strings.\<close>

fun join :: "string \<Rightarrow> string list \<Rightarrow> string" where
  "join sep [] = []"
| "join sep [x] = x"
| "join sep (x # y # ys) = x @ sep @ join sep (y # ys)"

text \<open>\<open>str(n)\<close> for an integer: its decimal digits, with a minus sign when negative.\<close>

definition digit_char :: "nat \<Rightarrow> char" where
  "digit_char d = ''0123456789'' ! d"

fun digits :: "nat \<Rightarrow> string" where
  "digits n = (if n < 10 then [digit_char n] else digits (n div 10) @ [digit_char (n mod 10)])"

declare digits.simps [simp del]

definition str_int :: "int \<Rightarrow> string" where
  "str_int i = (if i < 0 then CHR ''-'' # digits (nat (- i)) else digits (nat i))"

section \<open>Message registry (components/messages.py)\<close>

text \<open>
  The concrete message classes, in the order of their definition. The class \<open>Image\<close> is
  written \<open>Image_widget\<close> here.
\<close>

datatype message_class =
    UserMessage | AssistantMessage
  | TextInput | Selectbox | Slider | Checkbox | DateInput | TimeInput | NumberInput | TextArea
  | LineChart | BarChart | Image_widget | Table | Markdown

text \<open>\<open>cls.__name__\<close>.\<close>

fun class_name :: "message_class \<Rightarrow> string" where
  "class_name UserMessage = ''UserMessage''"
| "class_name AssistantMessage = ''AssistantMessage''"
| "class_name TextInput = ''TextInput''"
| "class_name Selectbox = ''Selectbox''"
| "class_name Slider = ''Slider''"
| "class_name Checkbox = ''Checkbox''"
| "class_name DateInput = ''DateInput''"
| "class_name TimeInput = ''TimeInput''"
| "class_name NumberInput = ''NumberInput''"
| "class_name TextArea = ''TextArea''"
| "class_name LineChart = ''LineChart''"
| "class_name BarChart = ''BarChart''"
| "class_name Image_widget = ''Image''"
| "class_name Table = ''Table''"
| "class_name Markdown = ''Markdown''"

definition register_message ::
  "message_class \<Rightarrow> (string \<rightharpoonup> message_class) \<Rightarrow> (string \<rightharpoonup> message_class)" where
  "register_message cls registry = registry(class_name cls \<mapsto> cls)"

text \<open>
  Modelled from the spec: \<open>register_tool\<close> of \<open>ai_stream.components.tools\<close>, which decorates
  \<open>TextInput\<close> before \<open>register_message\<close> does and is not among the sources. Registration
  is "for every concrete message/widget variant", so it hands the class back as it is.
\<close>

definition register_tool :: "message_class \<Rightarrow> message_class" where
  "register_tool cls = cls"

text \<open>The registry once the module is loaded: every decorated class, in order.\<close>

definition message_registry :: "string \<rightharpoonup> message_class" where
  "message_registry =
     fold register_message
       [UserMessage, AssistantMessage, register_tool TextInput, Selectbox, Slider, Checkbox,
        DateInput, TimeInput, NumberInput, TextArea, LineChart, BarChart, Image_widget, Table,
        Markdown]
       Map.empty"

text \<open>
  A message object is recorded as the call that builds it: the class and its positional
  arguments. The constructors themselves come from the base class \<open>Tool\<close>, outside the
  sources.
\<close>

datatype message = Message message_class "py_value list"

section \<open>Random assistant (components/assistant.py)\<close>

text \<open>
  \<open>random.choice(seq)\<close> returns the element at a position drawn by the generator. The
  draw is an argument of the model; it is reduced modulo the length, so that every draw
  selects an element of the sequence.
\<close>

definition random_choice :: "nat \<Rightarrow> 'a list \<Rightarrow> 'a" where
  "random_choice draw xs = xs ! (draw mod length xs)"

text \<open>
  What one call draws: the response category, the element of the chosen pool, and the two
  \<open>np.random.randn(20, 3).tolist()\<close> series.
\<close>

record draws =
  category_draw :: nat
  pool_draw :: nat
  line_chart_series :: py_value
  bar_chart_series :: py_value

definition possible_messages :: "string \<Rightarrow> string list" where
  "possible_messages user_message =
     [''Thanks for sharing: '' @ user_message,
      ''Could you elaborate on that?'',
      ''Interesting point!'',
      ''I appreciate your input.'',
      ''Let's discuss further.'',
      ''That's a great question.'',
      ''I see. Tell me more.'',
      ''You said: '' @ user_message @ ''. Let's explore that.'',
      ''What makes you say that?'',
      ''How does that make you feel?'']"

text \<open>A descriptor is the pair of its \<open>widget_type\<close> and its \<open>widget_data\<close> or \<open>widget_config\<close>.\<close>

definition possible_output_widgets :: "draws \<Rightarrow> (string \<times> py_value) list" where
  "possible_output_widgets d =
     [(''line_chart'', line_chart_series d),
      (''bar_chart'', bar_chart_series d),
      (''image'', PDict [(''url'', PStr ''https://via.placeholder.com/150''),
                         (''caption'', PStr ''A placeholder image'')]),
      (''table'', PDict [(''Column 1'', PList [PStr ''A'', PStr ''B'', PStr ''C'']),
                         (''Column 2'', PList [PInt 1, PInt 2, PInt 3]),
                         (''Column 3'', PList [PFloat 4.5, PFloat 5.5, PFloat 6.5])]),
      (''markdown'', PDict [(''content'',
          PStr (''### This is a Markdown header'' @ [CHR 0x0A, CHR 0x0A] @ ''Here is some **bold** ''
                @ ''text and *italic* text.''))])]"

definition possible_widgets :: "(string \<times> py_value) list" where
  "possible_widgets =
     [(''text_input'', PDict [(''label'', PStr ''Assistant asks: Please provide your name:'')]),
      (''selectbox'', PDict [(''label'', PStr ''Assistant asks: Choose your favorite color:''),
          (''options'', PList [PStr ''Red'', PStr ''Green'', PStr ''Blue'', PStr ''Yellow'',
                               PStr ''Purple'', PStr ''Orange''])]),
      (''slider'', PDict [(''label'', PStr ''Assistant asks: Rate your experience from 1 to 10:''),
          (''min_value'', PInt 1), (''max_value'', PInt 10), (''default'', PInt 5)]),
      (''checkbox'', PDict [(''label'', PStr ''Assistant asks: Do you agree with the terms?'')]),
      (''date_input'', PDict [(''label'', PStr ''Assistant asks: Select your birth date:'')]),
      (''time_input'', PDict [(''label'', PStr ''Assistant asks: What time works best for you?'')]),
      (''number_input'', PDict [(''label'', PStr ''Assistant asks: Enter a number:''),
          (''min_value'', PInt 0), (''max_value'', PInt 100), (''default'', PInt 50)]),
      (''text_area'', PDict [(''label'',
          PStr ''Assistant asks: Please describe your issue in detail:'')])]"

text \<open>
  The class name derived from a widget type (lines 72 and 141):
  \<open>"".join(word.capitalize() for word in widget_type.split("_")) + "Message"\<close>.
\<close>

definition derived_class_name :: "string \<Rightarrow> string" where
  "derived_class_name widget_type =
     concat (map capitalize (split_on CHR ''_'' widget_type)) @ ''Message''"

definition unknown_widget_message :: message where
  "unknown_widget_message =
     Message AssistantMessage [PStr ''Sorry, I encountered an unknown widget type.'']"

text \<open>
  \<open>generate_random_response\<close>. The registry is the module-level dictionary the function
  reads when it runs; the function returns the message and the updated counter.
\<close>

definition generate_random_response ::
  "(string \<rightharpoonup> message_class) \<Rightarrow> draws \<Rightarrow> string \<Rightarrow> int \<Rightarrow> message \<times> int" where
  "generate_random_response registry d user_message widget_counter =
     (let response_type =
            random_choice (category_draw d) [''input_widget'', ''output'', ''output_widget'']
      in
      if response_type = ''output'' then
        (let assistant_message = random_choice (pool_draw d) (possible_messages user_message)
         in (Message AssistantMessage [PStr assistant_message], widget_counter))
      else if response_type = ''output_widget'' then
        (let selected_widget = random_choice (pool_draw d) (possible_output_widgets d);
             widget_type = fst selected_widget;
             widget_data = snd selected_widget
         in case registry (derived_class_name widget_type) of
              Some message_class \<Rightarrow> (Message message_class [widget_data], widget_counter)
            | None \<Rightarrow> (unknown_widget_message, widget_counter))
      else
        (let widget_counter = widget_counter + 1;
             widget_key = ''widget_'' @ str_int widget_counter;
             selected_widget = random_choice (pool_draw d) possible_widgets;
             widget_type = fst selected_widget;
             widget_config = snd selected_widget
         in case registry (derived_class_name widget_type) of
              Some message_class \<Rightarrow>
                (Message message_class [widget_config, PStr widget_key], widget_counter)
            | None \<Rightarrow> (unknown_widget_message, widget_counter)))"

section \<open>Function schema editor (configurations/function_tools.py)\<close>

subsection \<open>Operations on Python objects\<close>

text \<open>\<open>xs.index(x)\<close>: the position of the first element equal to \<open>x\<close>, \<open>ValueError\<close> when none is.\<close>

fun list_index :: "'a list \<Rightarrow> 'a \<Rightarrow> error + nat" where
  "list_index [] x = Inl ValueError"
| "list_index (y # ys) x =
     (if y = x then Inr 0 else bind_err (list_index ys x) (\<lambda>i. Inr (Suc i)))"

text \<open>\<open>obj.get(key, default)\<close>: only a dictionary has the method.\<close>

fun py_get :: "py_value \<Rightarrow> string \<Rightarrow> py_value \<Rightarrow> error + py_value" where
  "py_get (PDict kvs) k dflt = Inr (case map_of kvs k of Some v \<Rightarrow> v | None \<Rightarrow> dflt)"
| "py_get _ k dflt = Inl AttributeError"

text \<open>\<open>obj[key]\<close> with a string key: \<open>KeyError\<close> on a dictionary without the key,
  \<open>TypeError\<close> on every other object.\<close>

fun py_getitem :: "py_value \<Rightarrow> string \<Rightarrow> error + py_value" where
  "py_getitem (PDict kvs) k = (case map_of kvs k of Some v \<Rightarrow> Inr v | None \<Rightarrow> Inl KeyError)"
| "py_getitem _ k = Inl TypeError"

text \<open>\<open>obj.items()\<close>.\<close>

fun py_items :: "py_value \<Rightarrow> error + (string \<times> py_value) list" where
  "py_items (PDict kvs) = Inr kvs"
| "py_items _ = Inl AttributeError"

text \<open>\<open>key in obj\<close> for a string key: membership in a list, key of a dictionary, substring
  of a string; the other objects are not iterable.\<close>

fun py_contains :: "string \<Rightarrow> py_value \<Rightarrow> error + bool" where
  "py_contains k (PList xs) = Inr (PStr k \<in> set xs)"
| "py_contains k (PDict kvs) = Inr (k \<in> set (map fst kvs))"
| "py_contains k (PStr s) = Inr (sublist k s)"
| "py_contains k _ = Inl TypeError"

text \<open>\<open>sep.join(obj)\<close>: the items of \<open>obj\<close> must all be strings.\<close>

fun str_items :: "py_value list \<Rightarrow> error + string list" where
  "str_items [] = Inr []"
| "str_items (PStr s # xs) = bind_err (str_items xs) (\<lambda>ss. Inr (s # ss))"
| "str_items (_ # xs) = Inl TypeError"

fun py_join :: "string \<Rightarrow> py_value \<Rightarrow> error + string" where
  "py_join sep (PList xs) = bind_err (str_items xs) (\<lambda>ss. Inr (join sep ss))"
| "py_join sep (PStr s) = Inr (join sep (map (\<lambda>c. [c]) s))"
| "py_join sep (PDict kvs) = Inr (join sep (map fst kvs))"
| "py_join sep _ = Inl TypeError"

subsection \<open>FunctionParameter\<close>

definition PARAM_TYPES :: "string list" where
  "PARAM_TYPES = [''string'', ''number'', ''integer'', ''boolean'', ''array'', ''object'']"

text \<open>
  The dataclass. The name is a string (it is a dictionary key on both sides of the
  conversion); the other data fields hold whatever object they were given.
\<close>

record FunctionParameter =
  name :: string
  description :: py_value
  type :: py_value
  required :: bool
  enum :: py_value
  items_type :: py_value
  type_index :: nat
  items_type_index :: nat

text \<open>
  Construction, \<open>FunctionParameter(**fields)\<close>: the generated \<open>__init__\<close> stores the
  fields and \<open>__post_init__\<close> looks both types up in \<open>PARAM_TYPES\<close>.
\<close>

definition FunctionParameter_init ::
  "string \<Rightarrow> py_value \<Rightarrow> py_value \<Rightarrow> bool \<Rightarrow> py_value \<Rightarrow> py_value \<Rightarrow> error + FunctionParameter"
where
  "FunctionParameter_init n d t r e it =
     bind_err (list_index (map PStr PARAM_TYPES) t) (\<lambda>ti.
     bind_err (list_index (map PStr PARAM_TYPES) it) (\<lambda>ii.
       Inr \<lparr>name = n, description = d, type = t, required = r, enum = e, items_type = it,
            type_index = ti, items_type_index = ii\<rparr>))"

subsection \<open>Function dictionaries\<close>

text \<open>
  The dictionary that describes a function under edit. Its \<open>"parameters"\<close> entry is the
  only one that holds \<open>FunctionParameter\<close> objects, so it is kept apart (\<open>None\<close>: the key
  is absent); the other entries (\<open>"name"\<close>, \<open>"schema_name"\<close>, \<open>"description"\<close>, \<open>"id"\<close>) hold
  plain values.
\<close>

record function_dict =
  entries :: "(string \<times> py_value) list"
  parameters :: "(string \<times> FunctionParameter) list option"

text \<open>\<open>d[key]\<close> on the plain entries and on \<open>"parameters"\<close>.\<close>

definition entry :: "function_dict \<Rightarrow> string \<Rightarrow> error + py_value" where
  "entry d k = (case map_of (entries d) k of Some v \<Rightarrow> Inr v | None \<Rightarrow> Inl KeyError)"

definition parameters_entry :: "function_dict \<Rightarrow> error + (string \<times> FunctionParameter) list" where
  "parameters_entry d = (case parameters d of Some ps \<Rightarrow> Inr ps | None \<Rightarrow> Inl KeyError)"

subsection \<open>convert_openai_function_to_aistream_dict\<close>

text \<open>
  \<open>json.loads\<close>, \<open>json.dumps\<close> and \<open>create_id\<close> (of \<open>ai_stream.utils\<close>) are arguments of the
  model: \<open>create_id n\<close> is the identifier returned by the call number \<open>n\<close> of one run.
\<close>

text \<open>The body of the loop over the properties: the fields, then the construction.\<close>

definition convert_param :: "py_value \<Rightarrow> string \<Rightarrow> py_value \<Rightarrow> error + FunctionParameter" where
  "convert_param required_names param_name param =
     bind_err (py_getitem param ''description'') (\<lambda>d.
     bind_err (py_getitem param ''type'') (\<lambda>t.
     bind_err (py_contains param_name required_names) (\<lambda>r.
     bind_err (py_get param ''enum'' (PList [])) (\<lambda>e.
     bind_err (py_get param ''items'' (PDict [])) (\<lambda>items.
     bind_err (py_get items ''type'' (PStr ''string'')) (\<lambda>it.
       FunctionParameter_init param_name d t r e it))))))"

fun convert_params ::
  "(nat \<Rightarrow> string) \<Rightarrow> py_value \<Rightarrow> nat \<Rightarrow> (string \<times> py_value) list \<Rightarrow>
   (string \<times> FunctionParameter) list \<Rightarrow> error + (string \<times> FunctionParameter) list" where
  "convert_params create_id required_names n [] converted_params = Inr converted_params"
| "convert_params create_id required_names n ((param_name, param) # rest) converted_params =
     (let param_id = create_id n in
      case convert_param required_names param_name param of
        Inl e \<Rightarrow> Inl e
      | Inr fp \<Rightarrow>
          convert_params create_id required_names (Suc n) rest
            (AList.update param_id fp converted_params))"

definition convert_openai_function_to_aistream_dict ::
  "(string \<Rightarrow> error + py_value) \<Rightarrow> (nat \<Rightarrow> string) \<Rightarrow> py_value \<Rightarrow> py_value \<Rightarrow>
   error + function_dict" where
  "convert_openai_function_to_aistream_dict json_loads create_id schema_name schema =
     bind_err (case schema of PStr text \<Rightarrow> json_loads text | _ \<Rightarrow> Inr schema) (\<lambda>schema_dict.
     bind_err (py_get schema_dict ''name'' PNone) (\<lambda>function_name.
     bind_err (py_get schema_dict ''description'' PNone) (\<lambda>function_description.
     bind_err (py_get schema_dict ''parameters'' PNone) (\<lambda>params.
     bind_err (py_get params ''required'' (PList [])) (\<lambda>required_names.
     bind_err (py_getitem params ''properties'') (\<lambda>properties.
     bind_err (py_items properties) (\<lambda>items.
     bind_err (convert_params create_id required_names 0 items []) (\<lambda>converted_params.
       Inr \<lparr>entries = [(''schema_name'', schema_name), (''name'', function_name),
                       (''description'', function_description)],
            parameters = Some converted_params\<rparr>))))))))"

subsection \<open>new_function, build_json_schema, add_parameter, remove_parameter\<close>

definition new_function :: function_dict where
  "new_function =
     \<lparr>entries = [(''name'', PStr ''''), (''schema_name'', PStr ''NewFunction''),
                 (''description'', PStr '''')],
      parameters = Some []\<rparr>"

text \<open>The property built for one named parameter (lines 116 to 121).\<close>

definition build_property :: "FunctionParameter \<Rightarrow> (string \<times> py_value) list" where
  "build_property param =
     (let prop = [(''type'', type param), (''description'', description param)];
          prop = (if type param \<in> set [PStr ''string'', PStr ''number'', PStr ''integer'']
                  then (if truthy (enum param) then AList.update ''enum'' (enum param) prop
                        else prop)
                  else prop);
          prop = (if type param = PStr ''array''
                  then AList.update ''items'' (PDict [(''type'', items_type param)]) prop
                  else prop)
      in prop)"

definition build_json_schema ::
  "(py_value \<Rightarrow> string) \<Rightarrow> py_value \<Rightarrow> py_value \<Rightarrow> (string \<times> FunctionParameter) list \<Rightarrow>
   py_value \<times> string" where
  "build_json_schema json_dumps function_name function_description params =
     (let required_params =
            map name (filter (\<lambda>param. required param \<and> name param \<noteq> []) (map snd params));
          properties =
            fold (\<lambda>param properties.
                    if name param = [] then properties
                    else AList.update (name param) (PDict (build_property param)) properties)
                 (map snd params) [];
          params_schema = [(''type'', PStr ''object''), (''properties'', PDict properties)];
          params_schema =
            (if required_params \<noteq> []
             then AList.update ''required'' (PList (map PStr required_params)) params_schema
             else params_schema);
          schema = PDict [(''name'', function_name), (''description'', function_description),
                          (''parameters'', PDict params_schema)]
      in (schema, json_dumps schema))"

definition add_parameter :: "(nat \<Rightarrow> string) \<Rightarrow> function_dict \<Rightarrow> error + function_dict" where
  "add_parameter create_id selected_function =
     (let new_id = create_id 0 in
      bind_err (FunctionParameter_init '''' (PStr '''') (PStr ''string'') True (PList [])
                  (PStr ''string'')) (\<lambda>new_param.
      bind_err (parameters_entry selected_function) (\<lambda>ps.
        Inr (selected_function\<lparr>parameters := Some (AList.update new_id new_param ps)\<rparr>))))"

definition remove_parameter :: "function_dict \<Rightarrow> string \<Rightarrow> error + function_dict" where
  "remove_parameter selected_function param_id =
     bind_err (parameters_entry selected_function) (\<lambda>ps.
       if param_id \<in> set (map fst ps)
       then Inr (selected_function\<lparr>parameters := Some (AList.delete param_id ps)\<rparr>)
       else Inl KeyError)"

subsection \<open>parameter_input\<close>

text \<open>
  What the widgets of one parameter return in this run of the page: the two text inputs,
  the type select box, the check box, the enum text input and the items type select box.
  The last two are read only where the code shows the widget.
\<close>

record parameter_widgets =
  name_input :: string
  description_input :: string
  type_select :: string
  required_checkbox :: bool
  enum_text :: string
  items_type_select :: string

text \<open>Line 180: \<open>[e.strip() for e in enum_input.split(",")] if enum_input else []\<close>.\<close>

definition parse_enum :: "string \<Rightarrow> string list" where
  "parse_enum enum_input =
     (if enum_input \<noteq> [] then map strip (split_on CHR '','' enum_input) else [])"

definition parameter_input ::
  "parameter_widgets \<Rightarrow> FunctionParameter \<Rightarrow> string \<Rightarrow> error + FunctionParameter" where
  "parameter_input w param param_id =
     (let new_name = name_input w;
          new_description = description_input w;
          new_type = type_select w;
          new_required = required_checkbox w
      in
      bind_err (if new_type \<in> set [''string'', ''number'', ''integer'']
                then bind_err (py_join '', '' (enum param)) (\<lambda>shown.
                       Inr (parse_enum (enum_text w)))
                else Inr []) (\<lambda>new_enum.
      let new_items_type = (if new_type = ''array'' then items_type_select w else ''string'')
      in FunctionParameter_init new_name (PStr new_description) (PStr new_type) new_required
           (PList (map PStr new_enum)) (PStr new_items_type)))"

subsection \<open>Application state and get_function\<close>

text \<open>The fields of \<open>AppState\<close>; the field \<open>functions\<close> is written \<open>functions_by_id\<close>.\<close>

record AppState =
  chat_history :: "message list"
  openai_thread_id :: string
  prompts :: "(string \<times> string) list"
  functions_by_id :: "(string \<times> string) list"
  assistants :: "(string \<times> string) list"
  recent_tool_output :: "(string \<times> py_value) list"
  current_function :: function_dict

text \<open>
  A row of the functions table, and what \<open>FunctionsTable.get\<close> does: it returns the row,
  raises \<open>DoesNotExist\<close>, or fails in another way.
\<close>

record function_item =
  item_name :: string
  item_value :: py_value
  item_used_by :: "string list"

datatype lookup = Found function_item | DoesNotExist | LookupFailed

text \<open>The widgets of the page: the "Expert Mode" checkbox and the text of the code editor.\<close>

record function_page =
  expert_mode :: bool
  code_text :: string

text \<open>
  \<open>get_function\<close> returns the application state as it leaves it, and the function
  dictionary or the exception raised. The two conversions draw their identifiers from
  \<open>reload_ids\<close> and \<open>expert_ids\<close>. Writing to the page has no part in the result.
\<close>

definition get_function ::
  "(py_value \<Rightarrow> string) \<Rightarrow> (string \<Rightarrow> error + py_value) \<Rightarrow> (nat \<Rightarrow> string) \<Rightarrow> (nat \<Rightarrow> string) \<Rightarrow>
   (string \<Rightarrow> lookup) \<Rightarrow> function_page \<Rightarrow> AppState \<Rightarrow> string \<Rightarrow>
   AppState \<times> (error + function_dict)" where
  "get_function json_dumps json_loads reload_ids expert_ids FunctionsTable_get page
       app_state function_id =
     (let tag = (\<lambda>d. d\<lparr>entries := AList.update ''id'' (PStr function_id) (entries d)\<rparr>);
          reloaded =
            (if (case map_of (entries (current_function app_state)) ''id'' of
                   Some v \<Rightarrow> v | None \<Rightarrow> PStr '''') \<noteq> PStr function_id
             then (case FunctionsTable_get function_id of
                     LookupFailed \<Rightarrow> Inl StoreError
                   | DoesNotExist \<Rightarrow> Inr (app_state\<lparr>current_function := tag new_function\<rparr>)
                   | Found item \<Rightarrow>
                       bind_err (convert_openai_function_to_aistream_dict json_loads reload_ids
                                   (PStr (item_name item)) (item_value item)) (\<lambda>d.
                         Inr (app_state\<lparr>current_function := tag d\<rparr>)))
             else Inr app_state)
      in case reloaded of
           Inl e \<Rightarrow> (app_state, Inl e)
         | Inr app_state' \<Rightarrow>
             (let stored_function = current_function app_state' in
              if expert_mode page then
                (app_state',
                 bind_err (entry stored_function ''name'') (\<lambda>function_name.
                 bind_err (entry stored_function ''description'') (\<lambda>function_description.
                 bind_err (parameters_entry stored_function) (\<lambda>ps.
                 let current_schema =
                       snd (build_json_schema json_dumps function_name function_description ps)
                 in
                 bind_err (entry stored_function ''schema_name'') (\<lambda>schema_name.
                   convert_openai_function_to_aistream_dict json_loads expert_ids schema_name
                     (PStr (if code_text page \<noteq> [] then code_text page
                            else current_schema)))))))
              else (app_state', Inr stored_function)))"

section \<open>Invariant of the dataclass and example values\<close>

text \<open>
  What \<open>__post_init__\<close> establishes: each index is a position of \<open>PARAM_TYPES\<close>, and
  the entry there is the type it stands for.
\<close>

definition indexes_match :: "FunctionParameter \<Rightarrow> bool" where
  "indexes_match p =
     (type_index p < length PARAM_TYPES \<and> PStr (PARAM_TYPES ! type_index p) = type p \<and>
      items_type_index p < length PARAM_TYPES \<and>
      PStr (PARAM_TYPES ! items_type_index p) = items_type p)"

text \<open>The blank record that \<open>new_function\<close> returns, once tagged with an id.\<close>

abbreviation blank_function :: "string \<Rightarrow> function_dict" where
  "blank_function function_id \<equiv>
     \<lparr>entries = [(''name'', PStr ''''), (''schema_name'', PStr ''NewFunction''),
                 (''description'', PStr ''''), (''id'', PStr function_id)],
      parameters = Some []\<rparr>"

text \<open>A state whose current function is the empty dictionary.\<close>

abbreviation example_state :: AppState where
  "example_state \<equiv>
     \<lparr>chat_history = [], openai_thread_id = '''', prompts = [],
      functions_by_id = [(''f1'', ''NewFunction'')], assistants = [], recent_tool_output = [],
      current_function = \<lparr>entries = [], parameters = None\<rparr>\<rparr>"

text \<open>Two parameters as the editor builds them, for the examples below.\<close>

abbreviation example_string_param :: FunctionParameter where
  "example_string_param \<equiv>
     \<lparr>name = ''x'', description = PStr ''a'', type = PStr ''string'', required = True,
      enum = PList [PStr ''u''], items_type = PStr ''string'', type_index = 0,
      items_type_index = 0\<rparr>"

abbreviation example_boolean_param :: FunctionParameter where
  "example_boolean_param \<equiv>
     \<lparr>name = ''x'', description = PStr ''b'', type = PStr ''boolean'', required = False,
      enum = PList [], items_type = PStr ''string'', type_index = 3,
      items_type_index = 0\<rparr>"


abbreviation example_unnamed_param :: FunctionParameter where
  "example_unnamed_param \<equiv>
     \<lparr>name = '''', description = PStr '''', type = PStr ''string'', required = True,
      enum = PList [], items_type = PStr ''string'', type_index = 0,
      items_type_index = 0\<rparr>"

abbreviation example_array_param :: FunctionParameter where
  "example_array_param \<equiv>
     \<lparr>name = ''xs'', description = PStr ''c'', type = PStr ''array'', required = False,
      enum = PList [], items_type = PStr ''integer'', type_index = 4,
      items_type_index = 2\<rparr>"

text \<open>Two parameters as the conversion of a stored schema can build them: a boolean with
  an enum, and a string with an items type.\<close>

abbreviation example_flag_param :: FunctionParameter where
  "example_flag_param \<equiv>
     \<lparr>name = ''flag'', description = PStr ''c'', type = PStr ''boolean'', required = True,
      enum = PList [PStr ''u''], items_type = PStr ''string'', type_index = 3,
      items_type_index = 0\<rparr>"

abbreviation example_items_param :: FunctionParameter where
  "example_items_param \<equiv>
     \<lparr>name = ''n'', description = PStr ''c'', type = PStr ''string'', required = True,
      enum = PList [], items_type = PStr ''number'', type_index = 0,
      items_type_index = 1\<rparr>"

text \<open>The widgets of a string parameter, with the given text in the enum input.\<close>

abbreviation example_widgets :: "string \<Rightarrow> parameter_widgets" where
  "example_widgets text \<equiv>
     \<lparr>name_input = ''color'', description_input = ''d'', type_select = ''string'',
      required_checkbox = True, enum_text = text, items_type_select = ''string''\<rparr>"

text \<open>A generator of identifiers: \<open>"i"\<close>, \<open>"ii"\<close>, \<open>"iii"\<close>, and so on.\<close>

abbreviation example_ids :: "nat \<Rightarrow> string" where
  "example_ids \<equiv> (\<lambda>n. replicate (Suc n) CHR ''i'')"

section \<open>Notions used to state the properties of the schema\<close>

text \<open>The parameters of a mapping that have a name, in the order of the mapping.\<close>

abbreviation named :: "(string \<times> FunctionParameter) list \<Rightarrow> FunctionParameter list" where
  "named params \<equiv> filter (\<lambda>p. name p \<noteq> []) (map snd params)"

text \<open>The entry of the properties made from one parameter, and the step of the loop of
  \<open>build_json_schema\<close> that stores it.\<close>

abbreviation property_entry :: "FunctionParameter \<Rightarrow> string \<times> py_value" where
  "property_entry p \<equiv> (name p, PDict (build_property p))"

abbreviation add_property ::
  "FunctionParameter \<Rightarrow> (string \<times> py_value) list \<Rightarrow> (string \<times> py_value) list" where
  "add_property \<equiv> (\<lambda>param properties.
      if name param = [] then properties
      else AList.update (name param) (PDict (build_property param)) properties)"

text \<open>
  What a parameter is after \<open>build_json_schema\<close> and the conversion back. The schema holds
  the enum only under the guards of lines 117 and 118 and the items type only under the
  guard of line 120; where the schema holds none, the conversion takes its defaults (lines
  71 and 72): the empty list, and \<open>"string"\<close>, which is at position 0 of \<open>PARAM_TYPES\<close>.
\<close>

definition round_trip_image :: "FunctionParameter \<Rightarrow> FunctionParameter" where
  "round_trip_image p =
     p\<lparr>enum := (if type p \<in> {PStr ''string'', PStr ''number'', PStr ''integer''} \<and> truthy (enum p)
                then enum p else PList []),
       items_type := (if type p = PStr ''array'' then items_type p else PStr ''string''),
       items_type_index := (if type p = PStr ''array'' then items_type_index p else 0)\<rparr>"

section \<open>Properties of the string operations\<close>

lemmas string_ops =
  derived_class_name_def capitalize_def to_upper_def to_lower_def ascii_lowercase_def
  ascii_uppercase_def

lemma split_on_not_Nil: "split_on sep s \<noteq> []"
  by (induction s) (auto split: list.splits)

lemma length_split_on: "length (split_on sep s) = Suc (count_list s sep)"
  by (induction s) (auto split: list.splits simp: split_on_not_Nil)

text \<open>The pieces, with the separator put back between them, are the input; none holds the
  separator.\<close>

lemma join_split_on: "join [sep] (split_on sep s) = s"
proof (induction s)
  case Nil
  then show ?case by simp
next
  case (Cons c cs)
  obtain w ws where ws: "split_on sep cs = w # ws"
    using split_on_not_Nil [of sep cs] by (cases "split_on sep cs") auto
  with Cons show ?case by (cases ws) auto
qed

lemma split_on_no_sep: "w \<in> set (split_on sep s) \<Longrightarrow> sep \<notin> set w"
  by (induction s arbitrary: w) (auto split: list.splits if_splits)

text \<open>Stripping removes white space at both ends, and nothing else.\<close>

lemma strip_decomposition:
  "\<exists>a b. s = a @ strip s @ b \<and> list_all is_space a \<and> list_all is_space b"
proof -
  let ?t = "dropWhile is_space s"
  have 1: "s = takeWhile is_space s @ ?t" by simp
  have 2: "rev ?t = takeWhile is_space (rev ?t) @ dropWhile is_space (rev ?t)" by simp
  have 3: "?t = strip s @ rev (takeWhile is_space (rev ?t))"
    unfolding strip_def using 2 by (metis rev_append rev_rev_ident)
  have "list_all is_space (takeWhile is_space s)"
    by (simp add: list_all_iff) (meson set_takeWhileD)
  moreover have "list_all is_space (rev (takeWhile is_space (rev ?t)))"
    by (simp add: list_all_iff) (meson set_takeWhileD)
  ultimately show ?thesis using 1 3 by (metis append.assoc)
qed

lemma strip_trimmed:
  assumes "strip s \<noteq> []"
  shows "\<not> is_space (hd (strip s)) \<and> \<not> is_space (last (strip s))"
proof -
  let ?t = "dropWhile is_space s"
  let ?u = "dropWhile is_space (rev ?t)"
  have u: "?u \<noteq> []" using assms by (simp add: strip_def)
  then have "\<not> is_space (hd ?u)" by (metis hd_dropWhile)
  then have l: "\<not> is_space (last (strip s))" using u by (simp add: strip_def last_rev)
  have t: "?t \<noteq> []" using u by (cases "?t") simp_all
  then have ht: "\<not> is_space (hd ?t)" by (metis hd_dropWhile)
  obtain b where b: "?t = strip s @ b"
    unfolding strip_def by (metis append_take_drop_id rev_append rev_rev_ident takeWhile_dropWhile_id)
  then have "hd ?t = hd (strip s)" using assms by (metis hd_append2)
  with ht l show ?thesis by simp
qed

section \<open>The registry and the built-in descriptors\<close>

lemma dom_message_registry:
  "dom message_registry =
     {''UserMessage'', ''AssistantMessage'', ''TextInput'', ''Selectbox'', ''Slider'',
      ''Checkbox'', ''DateInput'', ''TimeInput'', ''NumberInput'', ''TextArea'', ''LineChart'',
      ''BarChart'', ''Image'', ''Table'', ''Markdown''}"
  by (auto simp: message_registry_def register_message_def register_tool_def split: if_splits)

text \<open>
  Claim C1. Every widget type of the two descriptor pools should derive a class name that
  is a key of the registry. The code derives the thirteen names below, each ending in
  \<open>Message\<close>, while the classes are registered under their own names, without that
  suffix: every lookup returns \<open>None\<close>, so the fallback branch is taken for each built-in
  descriptor.
\<close>

theorem builtin_descriptors_unresolved:
  "map (\<lambda>w. derived_class_name (fst w)) (possible_output_widgets d @ possible_widgets) =
     [''LineChartMessage'', ''BarChartMessage'', ''ImageMessage'', ''TableMessage'',
      ''MarkdownMessage'', ''TextInputMessage'', ''SelectboxMessage'', ''SliderMessage'',
      ''CheckboxMessage'', ''DateInputMessage'', ''TimeInputMessage'', ''NumberInputMessage'',
      ''TextAreaMessage'']
   \<and> map (\<lambda>w. message_registry (derived_class_name (fst w)))
        (possible_output_widgets d @ possible_widgets) =
     [None, None, None, None, None, None, None, None, None, None, None, None, None]"
  by (simp add: possible_output_widgets_def possible_widgets_def message_registry_def
      register_message_def register_tool_def string_ops)

section \<open>Enum parsing\<close>

text \<open>Line 180 on the two inputs of the specification, and on inputs with empty segments.\<close>

lemma parse_enum_values:
  "parse_enum ''a, b ,c'' = [''a'', ''b'', ''c'']"
  "parse_enum '''' = []"
  "parse_enum ''a,'' = [''a'', '''']"
  "parse_enum ''a,,b'' = [''a'', '''', ''b'']"
  by (simp_all add: parse_enum_def strip_def is_space_def)

text \<open>The no-break space is white space, so it is stripped as well.\<close>

lemma parse_enum_no_break_space:
  "parse_enum (''a,'' @ [CHR 0xA0] @ ''b'') = [''a'', ''b'']"
  by (simp add: parse_enum_def strip_def is_space_def)

lemma length_parse_enum:
  "s \<noteq> [] \<Longrightarrow> length (parse_enum s) = Suc (count_list s CHR '','')"
  by (simp add: parse_enum_def length_split_on)

section \<open>The random response generator\<close>

text \<open>The counter moves by one in the input-widget category and stays otherwise, whatever
  the registry holds.\<close>

lemma generate_random_response_counter:
  "snd (generate_random_response registry d user_message widget_counter) =
     (if random_choice (category_draw d) [''input_widget'', ''output'', ''output_widget'']
           = ''input_widget''
      then widget_counter + 1 else widget_counter)"
proof -
  have "category_draw d mod 3 = 0 \<or> category_draw d mod 3 = 1 \<or> category_draw d mod 3 = 2"
    by arith
  then show ?thesis
    by (auto simp: generate_random_response_def random_choice_def Let_def split: option.splits)
qed

text \<open>When the registry knows the derived name, the widget is built with the key made of
  the new counter.\<close>

lemma generate_random_response_key:
  assumes "random_choice (category_draw d) [''input_widget'', ''output'', ''output_widget'']
             = ''input_widget''"
      and "registry (derived_class_name (fst (random_choice (pool_draw d) possible_widgets)))
             = Some cls"
  shows "generate_random_response registry d user_message widget_counter =
           (Message cls [snd (random_choice (pool_draw d) possible_widgets),
                         PStr (''widget_'' @ str_int (widget_counter + 1))],
            widget_counter + 1)"
  using assms by (simp add: generate_random_response_def Let_def)

text \<open>
  Claim C2. In the input-widget category the call should return the counter plus one and
  a widget keyed \<open>"widget_"\<close> followed by that counter. With the registry as the module
  fills it, the call below (category input widget, descriptor \<open>text_input\<close>, counter 0)
  returns the counter 1 and the fallback text message, which carries no key.
\<close>

theorem input_widget_falls_back:
  "generate_random_response message_registry
     \<lparr>category_draw = 0, pool_draw = 0, line_chart_series = PList [],
      bar_chart_series = PList []\<rparr> ''hello'' 0
   = (Message AssistantMessage [PStr ''Sorry, I encountered an unknown widget type.''], 1)"
  by (simp add: generate_random_response_def random_choice_def possible_widgets_def
      unknown_widget_message_def message_registry_def register_message_def register_tool_def
      string_ops)

text \<open>
  Claim C5. In the two widget categories, when the class name derived from the selected
  widget type is not a key of the registry, the call returns the text message
  "Sorry, I encountered an unknown widget type." with the counter of its category; the
  function returns a value on every input.
\<close>

theorem unknown_widget_fallback:
  assumes "random_choice (category_draw d) [''input_widget'', ''output'', ''output_widget'']
             = response_type"
      and "response_type \<noteq> ''output''"
      and "registry (derived_class_name (fst (random_choice (pool_draw d)
             (if response_type = ''output_widget'' then possible_output_widgets d
              else possible_widgets)))) = None"
  shows "generate_random_response registry d user_message widget_counter =
           (Message AssistantMessage [PStr ''Sorry, I encountered an unknown widget type.''],
            if response_type = ''output_widget'' then widget_counter else widget_counter + 1)"
  using assms
  by (cases "response_type = ''output_widget''")
     (simp_all add: generate_random_response_def Let_def unknown_widget_message_def)

theorem unknown_widget_fallback_witness:
  "generate_random_response message_registry
     \<lparr>category_draw = 2, pool_draw = 3, line_chart_series = PList [],
      bar_chart_series = PList []\<rparr> ''hello'' 7
   = (Message AssistantMessage [PStr ''Sorry, I encountered an unknown widget type.''], 7)"
  using unknown_widget_fallback [of "\<lparr>category_draw = 2, pool_draw = 3,
      line_chart_series = PList [], bar_chart_series = PList []\<rparr>" "''output_widget''"
      message_registry "''hello''" 7]
  by (simp add: random_choice_def possible_output_widgets_def message_registry_def
      register_message_def register_tool_def string_ops)

section \<open>Removing a parameter\<close>

lemma delete_filter: "AList.delete k al = filter (\<lambda>kv. fst kv \<noteq> k) al"
  by (induction al) auto

text \<open>
  Claim C8. When the parameter mapping of the function holds the given id,
  \<open>remove_parameter\<close> succeeds; the new mapping is the old one without the entry of that
  id, the other entries in their order and with their values, and nothing else of the
  function changes.
\<close>

theorem remove_parameter_frame:
  assumes "parameters f = Some ps" and "param_id \<in> set (map fst ps)"
  shows "\<exists>ps'. remove_parameter f param_id = Inr (f\<lparr>parameters := Some ps'\<rparr>)
           \<and> ps' = filter (\<lambda>kv. fst kv \<noteq> param_id) ps
           \<and> map_of ps' param_id = None
           \<and> (\<forall>k. k \<noteq> param_id \<longrightarrow> map_of ps' k = map_of ps k)"
proof -
  let ?ps' = "AList.delete param_id ps"
  have "remove_parameter f param_id = Inr (f\<lparr>parameters := Some ?ps'\<rparr>)"
    using assms by (simp add: remove_parameter_def parameters_entry_def bind_err_def)
  moreover have "map_of ?ps' = (map_of ps)(param_id := None)"
    by (rule delete_conv')
  ultimately show ?thesis
    by (simp add: delete_filter [symmetric])
qed

theorem remove_parameter_frame_witness:
  "remove_parameter
     \<lparr>entries = [(''name'', PStr ''f'')],
      parameters = Some [(''i1'', example_string_param), (''i2'', example_boolean_param),
                         (''i3'', example_string_param)]\<rparr> ''i2''
   = Inr \<lparr>entries = [(''name'', PStr ''f'')],
          parameters = Some [(''i1'', example_string_param), (''i3'', example_string_param)]\<rparr>"
  using remove_parameter_frame [of "\<lparr>entries = [(''name'', PStr ''f'')],
      parameters = Some [(''i1'', example_string_param), (''i2'', example_boolean_param),
                         (''i3'', example_string_param)]\<rparr>"
      "[(''i1'', example_string_param), (''i2'', example_boolean_param),
        (''i3'', example_string_param)]" "''i2''"]
  by simp

section \<open>Loading a function that the store does not hold\<close>

text \<open>
  Claim C6. When the function id is not the one of the current function, so that the store
  is asked, and the store raises \<open>DoesNotExist\<close>, \<open>get_function\<close> leaves the state with the
  current function set to the blank record (empty name, schema name \<open>NewFunction\<close>, empty
  description, no parameter) tagged with the id, and the rest of the state as it was.
  Outside expert mode it returns that record; in expert mode it returns what the
  conversion of the editor's text (or of the blank schema, when the editor is empty)
  gives. The store's exception is not passed on.
\<close>

theorem get_function_not_found:
  assumes "(case map_of (entries (current_function app_state)) ''id'' of
              Some v \<Rightarrow> v | None \<Rightarrow> PStr '''') \<noteq> PStr function_id"
      and "FunctionsTable_get function_id = DoesNotExist"
  shows "fst (get_function json_dumps json_loads reload_ids expert_ids FunctionsTable_get page
               app_state function_id)
           = app_state\<lparr>current_function := blank_function function_id\<rparr>
         \<and> snd (get_function json_dumps json_loads reload_ids expert_ids FunctionsTable_get page
               app_state function_id) =
             (if expert_mode page
              then convert_openai_function_to_aistream_dict json_loads expert_ids
                     (PStr ''NewFunction'')
                     (PStr (if code_text page \<noteq> [] then code_text page
                            else snd (build_json_schema json_dumps (PStr '''') (PStr '''') [])))
              else Inr (blank_function function_id))"
  using assms
  by (simp add: get_function_def new_function_def Let_def entry_def parameters_entry_def
      bind_err_def)

theorem get_function_not_found_witness:
  "get_function (\<lambda>v. ''{}'') (\<lambda>s. Inl JSONDecodeError) (\<lambda>n. ''a'') (\<lambda>n. ''b'')
     (\<lambda>i. DoesNotExist) \<lparr>expert_mode = False, code_text = ''''\<rparr> example_state ''f1''
   = (example_state\<lparr>current_function := blank_function ''f1''\<rparr>, Inr (blank_function ''f1''))"
  using get_function_not_found [of example_state "''f1''" "\<lambda>i. DoesNotExist"
      "\<lambda>v. ''{}''" "\<lambda>s. Inl JSONDecodeError" "\<lambda>n. ''a''" "\<lambda>n. ''b''"
      "\<lparr>expert_mode = False, code_text = ''''\<rparr>"]
  by (simp add: prod_eq_iff)

section \<open>The indexes of a parameter\<close>

lemma list_index_Inr: "list_index xs x = Inr i \<Longrightarrow> i < length xs \<and> xs ! i = x"
  by (induction xs arbitrary: i) (auto simp: bind_err_def split: if_splits sum.splits)

lemma list_index_mem: "x \<in> set xs \<Longrightarrow> \<exists>i. list_index xs x = Inr i"
  by (induction xs) (auto simp: bind_err_def)

lemma FunctionParameter_init_Inr:
  assumes "FunctionParameter_init n d t r e it = Inr p"
  shows "indexes_match p \<and> name p = n \<and> description p = d \<and> type p = t \<and> required p = r
         \<and> enum p = e \<and> items_type p = it"
proof -
  from assms obtain ti ii where
    ti: "list_index (map PStr PARAM_TYPES) t = Inr ti" and
    ii: "list_index (map PStr PARAM_TYPES) it = Inr ii" and
    p: "p = \<lparr>name = n, description = d, type = t, required = r, enum = e, items_type = it,
            type_index = ti, items_type_index = ii\<rparr>"
    by (auto simp: FunctionParameter_init_def bind_err_def split: sum.splits)
  from list_index_Inr [OF ti] list_index_Inr [OF ii] p show ?thesis
    by (auto simp: indexes_match_def)
qed

lemma FunctionParameter_init_succeeds:
  assumes "t \<in> set (map PStr PARAM_TYPES)" and "it \<in> set (map PStr PARAM_TYPES)"
  shows "\<exists>p. FunctionParameter_init n d t r e it = Inr p"
  using list_index_mem [OF assms(1)] list_index_mem [OF assms(2)]
  by (auto simp: FunctionParameter_init_def bind_err_def)

lemma convert_param_Inr:
  "convert_param required_names param_name param = Inr p \<Longrightarrow> indexes_match p"
  by (auto simp: convert_param_def bind_err_def split: sum.splits dest: FunctionParameter_init_Inr)

lemma set_update_values:
  "set (map snd (AList.update k v al)) \<subseteq> insert v (set (map snd al))"
  by (induction al) auto

lemma convert_params_Inr:
  "convert_params create_id required_names n items acc = Inr ps \<Longrightarrow>
     list_all indexes_match (map snd acc) \<Longrightarrow> list_all indexes_match (map snd ps)"
proof (induction items arbitrary: n acc)
  case Nil
  then show ?case by simp
next
  case (Cons item items)
  obtain param_name param where item: "item = (param_name, param)" by (cases item)
  from Cons.prems(1) item obtain fp where
    fp: "convert_param required_names param_name param = Inr fp" and
    rest: "convert_params create_id required_names (Suc n) items
             (AList.update (create_id n) fp acc) = Inr ps"
    by (auto simp: Let_def split: sum.splits)
  have "list_all indexes_match (map snd (AList.update (create_id n) fp acc))"
    using set_update_values [of "create_id n" fp acc] Cons.prems(2) convert_param_Inr [OF fp]
    unfolding list_all_iff by blast
  with Cons.IH [OF rest] show ?case .
qed

lemma convert_Inr:
  assumes "convert_openai_function_to_aistream_dict json_loads create_id schema_name schema
             = Inr f"
  shows "\<exists>ps. parameters f = Some ps \<and> list_all indexes_match (map snd ps)"
proof -
  from assms obtain required_names items ps where
    "convert_params create_id required_names 0 items [] = Inr ps" and "parameters f = Some ps"
    by (auto simp: convert_openai_function_to_aistream_dict_def bind_err_def split: sum.splits)
  then show ?thesis using convert_params_Inr [of create_id required_names 0 items "[]" ps]
    by simp
qed

lemma add_parameter_Inr:
  assumes "add_parameter create_id f = Inr f'"
  shows "\<exists>ps p. parameters f' = Some ps \<and> map_of ps (create_id 0) = Some p \<and> indexes_match p"
proof -
  from assms obtain p ps where
    p: "FunctionParameter_init '''' (PStr '''') (PStr ''string'') True (PList [])
          (PStr ''string'') = Inr p" and
    f': "f' = f\<lparr>parameters := Some (AList.update (create_id 0) p ps)\<rparr>"
    by (auto simp: add_parameter_def bind_err_def Let_def split: sum.splits)
  from FunctionParameter_init_Inr [OF p] f' show ?thesis
    by (simp add: update_conv')
qed

lemma parameter_input_Inr:
  "parameter_input w param param_id = Inr p \<Longrightarrow> indexes_match p"
  by (auto simp: parameter_input_def bind_err_def Let_def split: sum.splits if_splits
      dest: FunctionParameter_init_Inr)

text \<open>
  Claim C9. A construction with a type and an items type of \<open>PARAM_TYPES\<close> succeeds, and
  every constructed parameter keeps the fields it was given and has
  \<open>PARAM_TYPES[type_index] = type\<close> and \<open>PARAM_TYPES[items_type_index] = items_type\<close>. The
  same holds of every parameter in the result of
  \<open>convert_openai_function_to_aistream_dict\<close>, of the parameter that \<open>add_parameter\<close>
  stores under the new id, and of the parameter that \<open>parameter_input\<close> returns.
\<close>

theorem parameter_indexes_invariant:
  "(t \<in> set (map PStr PARAM_TYPES) \<and> it \<in> set (map PStr PARAM_TYPES)
      \<longrightarrow> (\<exists>p. FunctionParameter_init n d t r e it = Inr p))
   \<and> (FunctionParameter_init n d t r e it = Inr p
      \<longrightarrow> type p = t \<and> items_type p = it \<and> indexes_match p)
   \<and> (convert_openai_function_to_aistream_dict json_loads create_id schema_name schema = Inr f
      \<longrightarrow> (\<exists>ps. parameters f = Some ps \<and> list_all indexes_match (map snd ps)))
   \<and> (add_parameter create_id g = Inr g'
      \<longrightarrow> (\<exists>ps q. parameters g' = Some ps \<and> map_of ps (create_id 0) = Some q
                  \<and> indexes_match q))
   \<and> (parameter_input w param param_id = Inr p' \<longrightarrow> indexes_match p')"
  using FunctionParameter_init_succeeds [of t it n d r e]
    FunctionParameter_init_Inr [of n d t r e it p]
    convert_Inr [of json_loads create_id schema_name schema f]
    add_parameter_Inr [of create_id g g']
    parameter_input_Inr [of w param param_id p']
  by blast

theorem parameter_indexes_invariant_witness:
  "FunctionParameter_init ''xs'' (PStr ''d'') (PStr ''array'') True (PList []) (PStr ''integer'')
     = Inr \<lparr>name = ''xs'', description = PStr ''d'', type = PStr ''array'', required = True,
            enum = PList [], items_type = PStr ''integer'', type_index = 4,
            items_type_index = 2\<rparr>
   \<and> indexes_match \<lparr>name = ''xs'', description = PStr ''d'', type = PStr ''array'',
        required = True, enum = PList [], items_type = PStr ''integer'', type_index = 4,
        items_type_index = 2\<rparr>
   \<and> PStr ''array'' \<in> set (map PStr PARAM_TYPES)
   \<and> PStr ''integer'' \<in> set (map PStr PARAM_TYPES)"
proof -
  let ?p = "\<lparr>name = ''xs'', description = PStr ''d'', type = PStr ''array'', required = True,
             enum = PList [], items_type = PStr ''integer'', type_index = 4,
             items_type_index = 2\<rparr>"
  have init: "FunctionParameter_init ''xs'' (PStr ''d'') (PStr ''array'') True (PList [])
                (PStr ''integer'') = Inr ?p"
    by (simp add: FunctionParameter_init_def PARAM_TYPES_def bind_err_def)
  have mem: "PStr ''array'' \<in> set (map PStr PARAM_TYPES)"
            "PStr ''integer'' \<in> set (map PStr PARAM_TYPES)"
    by (simp_all add: PARAM_TYPES_def)
  from parameter_indexes_invariant [of "PStr ''array''" "PStr ''integer''" "''xs''" "PStr ''d''"
      True "PList []" ?p] init
  have "indexes_match ?p" by blast
  with init mem show ?thesis by blast
qed

section \<open>The enum list that parameter_input returns\<close>

text \<open>Joining a list of strings succeeds.\<close>

lemma str_items_strings: "str_items (map PStr es) = Inr es"
  by (induction es) (simp_all add: bind_err_def)

lemma py_join_strings: "py_join sep (PList (map PStr es)) = Inr (join sep es)"
  by (simp add: str_items_strings bind_err_def)

text \<open>The enum of the returned parameter is the parsed text of the enum input when the
  selected type is string, number or integer, and the empty list for the other types.\<close>

lemma parameter_input_enum:
  assumes "parameter_input w param param_id = Inr p"
  shows "enum p =
           PList (map PStr (if type_select w \<in> set [''string'', ''number'', ''integer'']
                            then parse_enum (enum_text w) else []))"
proof -
  from assms obtain new_enum where
    e: "new_enum = (if type_select w \<in> set [''string'', ''number'', ''integer'']
                    then parse_enum (enum_text w) else [])" and
    init: "FunctionParameter_init (name_input w) (PStr (description_input w))
             (PStr (type_select w)) (required_checkbox w) (PList (map PStr new_enum))
             (PStr (if type_select w = ''array'' then items_type_select w else ''string'')) = Inr p"
    by (auto simp: parameter_input_def bind_err_def Let_def split: sum.splits if_splits)
  from FunctionParameter_init_Inr [OF init] e show ?thesis by simp
qed

text \<open>With a type that shows the enum input and a current enum that is a list of strings,
  the call returns a parameter.\<close>

lemma parameter_input_returns:
  assumes "type_select w \<in> set [''string'', ''number'', ''integer'']"
      and "enum param = PList (map PStr shown)"
  shows "\<exists>p. parameter_input w param param_id = Inr p"
proof -
  have t: "PStr (type_select w) \<in> set (map PStr PARAM_TYPES)"
    using assms(1) by (auto simp: PARAM_TYPES_def)
  have a: "type_select w \<noteq> ''array''"
    using assms(1) by auto
  have i: "PStr ''string'' \<in> set (map PStr PARAM_TYPES)"
    by (simp add: PARAM_TYPES_def)
  from FunctionParameter_init_succeeds [OF t i]
  obtain p where "FunctionParameter_init (name_input w) (PStr (description_input w))
      (PStr (type_select w)) (required_checkbox w)
      (PList (map PStr (parse_enum (enum_text w)))) (PStr ''string'') = Inr p"
    by blast
  then show ?thesis
    using assms(1) a
    by (simp add: parameter_input_def assms(2) py_join_strings bind_err_def Let_def
        del: py_join.simps)
qed

text \<open>
  Claim C7. When the selected type is string, number or integer and the current enum of
  the parameter is a list of strings, \<open>parameter_input\<close> returns a parameter; the enum of
  the returned parameter is the text of the enum input split on commas, each piece
  stripped of white space, and the empty list when the text is empty. The text
  \<open>"a, b ,c"\<close> gives \<open>["a", "b", "c"]\<close>. For the other types the enum is empty.
\<close>

theorem parameter_input_enum_list:
  "(type_select w \<in> set [''string'', ''number'', ''integer'']
      \<and> enum param = PList (map PStr shown)
      \<longrightarrow> (\<exists>q. parameter_input w param param_id = Inr q))
   \<and> (parameter_input w param param_id = Inr p
      \<and> type_select w \<in> set [''string'', ''number'', ''integer'']
      \<longrightarrow> enum p = PList (map PStr (if enum_text w = [] then []
                                       else map strip (split_on CHR '','' (enum_text w))))
          \<and> (enum_text w = ''a, b ,c'' \<longrightarrow> enum p = PList [PStr ''a'', PStr ''b'', PStr ''c''])
          \<and> (enum_text w = '''' \<longrightarrow> enum p = PList []))
   \<and> (parameter_input w param param_id = Inr p
      \<and> type_select w \<notin> set [''string'', ''number'', ''integer'']
      \<longrightarrow> enum p = PList [])"
proof -
  have 1: "\<exists>q. parameter_input w param param_id = Inr q"
    if "type_select w \<in> set [''string'', ''number'', ''integer'']"
      and "enum param = PList (map PStr shown)"
    using parameter_input_returns [OF that] .
  have 2: "enum p = PList (map PStr (parse_enum (enum_text w)))"
    if "parameter_input w param param_id = Inr p"
      and "type_select w \<in> set [''string'', ''number'', ''integer'']"
    using parameter_input_enum [OF that(1)] that(2) by simp
  have 3: "enum p = PList []"
    if "parameter_input w param param_id = Inr p"
      and "type_select w \<notin> set [''string'', ''number'', ''integer'']"
    using parameter_input_enum [OF that(1)] that(2) by simp
  have 4: "parse_enum (enum_text w) =
             (if enum_text w = [] then [] else map strip (split_on CHR '','' (enum_text w)))"
    by (simp add: parse_enum_def)
  have 5: "enum p = PList (map PStr (if enum_text w = [] then []
                                     else map strip (split_on CHR '','' (enum_text w))))
           \<and> (enum_text w = ''a, b ,c'' \<longrightarrow> enum p = PList [PStr ''a'', PStr ''b'', PStr ''c''])
           \<and> (enum_text w = '''' \<longrightarrow> enum p = PList [])"
    if "parameter_input w param param_id = Inr p"
      and "type_select w \<in> set [''string'', ''number'', ''integer'']"
    using 2 [OF that] 4 by (simp add: strip_def is_space_def)
  from 1 3 5 show ?thesis by blast
qed

theorem parameter_input_enum_list_witness:
  "parameter_input (example_widgets ''a, b ,c'') example_string_param ''i1''
     = Inr \<lparr>name = ''color'', description = PStr ''d'', type = PStr ''string'', required = True,
            enum = PList [PStr ''a'', PStr ''b'', PStr ''c''], items_type = PStr ''string'',
            type_index = 0, items_type_index = 0\<rparr>
   \<and> parameter_input (example_widgets '''') example_string_param ''i1''
     = Inr \<lparr>name = ''color'', description = PStr ''d'', type = PStr ''string'', required = True,
            enum = PList [], items_type = PStr ''string'', type_index = 0,
            items_type_index = 0\<rparr>"
proof -
  obtain q where q: "parameter_input (example_widgets ''a, b ,c'') example_string_param ''i1''
                       = Inr q"
    using parameter_input_enum_list [of "example_widgets ''a, b ,c''" example_string_param
        "[''u'']" "''i1''"]
    by auto
  have e: "enum q = PList [PStr ''a'', PStr ''b'', PStr ''c'']"
    using parameter_input_enum_list [of "example_widgets ''a, b ,c''" example_string_param
        "[''u'']" "''i1''" q] q
    by (simp add: strip_def is_space_def)
  obtain r where r: "parameter_input (example_widgets '''') example_string_param ''i1'' = Inr r"
    using parameter_input_enum_list [of "example_widgets ''''" example_string_param
        "[''u'']" "''i1''"]
    by auto
  have f: "enum r = PList []"
    using parameter_input_enum_list [of "example_widgets ''''" example_string_param
        "[''u'']" "''i1''" r] r
    by (simp add: strip_def is_space_def)
  from q e have "q = \<lparr>name = ''color'', description = PStr ''d'', type = PStr ''string'',
         required = True, enum = PList [PStr ''a'', PStr ''b'', PStr ''c''],
         items_type = PStr ''string'', type_index = 0, items_type_index = 0\<rparr>"
    by (auto simp: parameter_input_def FunctionParameter_init_def PARAM_TYPES_def bind_err_def
        Let_def)
  moreover from r f have "r = \<lparr>name = ''color'', description = PStr ''d'',
         type = PStr ''string'', required = True, enum = PList [],
         items_type = PStr ''string'', type_index = 0, items_type_index = 0\<rparr>"
    by (auto simp: parameter_input_def FunctionParameter_init_def PARAM_TYPES_def bind_err_def
        Let_def)
  ultimately show ?thesis using q r by simp
qed

text \<open>
  Claim C10. When the selected type is string, number or integer and the text of the enum
  input is not empty, the enum of the parameter that \<open>parameter_input\<close> returns has one
  entry for each comma-separated segment of the text, which is one more than the number
  of commas: each entry is its segment stripped, so an empty segment stays as an empty
  string. The text \<open>"a,"\<close> gives \<open>["a", ""]\<close>, and \<open>"a,,b"\<close> gives \<open>["a", "", "b"]\<close>.
\<close>

theorem parameter_input_enum_segments:
  assumes "parameter_input w param param_id = Inr p"
      and "type_select w \<in> set [''string'', ''number'', ''integer'']"
      and "enum_text w \<noteq> []"
  shows "\<exists>es. enum p = PList (map PStr es)
           \<and> length es = Suc (count_list (enum_text w) CHR '','')
           \<and> es = map strip (split_on CHR '','' (enum_text w))
           \<and> (enum_text w = ''a,'' \<longrightarrow> es = [''a'', ''''])
           \<and> (enum_text w = ''a,,b'' \<longrightarrow> es = [''a'', '''', ''b''])"
proof -
  let ?es = "parse_enum (enum_text w)"
  have "enum p = PList (map PStr ?es)"
    using parameter_input_enum [OF assms(1)] assms(2) by simp
  moreover have "length ?es = Suc (count_list (enum_text w) CHR '','')"
    by (rule length_parse_enum [OF assms(3)])
  moreover have "?es = map strip (split_on CHR '','' (enum_text w))"
    using assms(3) by (simp add: parse_enum_def)
  moreover have "enum_text w = ''a,'' \<longrightarrow> ?es = [''a'', '''']"
    by (simp add: parse_enum_values)
  moreover have "enum_text w = ''a,,b'' \<longrightarrow> ?es = [''a'', '''', ''b'']"
    by (simp add: parse_enum_values)
  ultimately show ?thesis by blast
qed

theorem parameter_input_enum_segments_witness:
  "parameter_input (example_widgets ''a,'') example_string_param ''i1''
     = Inr \<lparr>name = ''color'', description = PStr ''d'', type = PStr ''string'', required = True,
            enum = PList [PStr ''a'', PStr ''''], items_type = PStr ''string'',
            type_index = 0, items_type_index = 0\<rparr>
   \<and> count_list ''a,'' CHR '','' = 1"
proof -
  let ?p = "\<lparr>name = ''color'', description = PStr ''d'', type = PStr ''string'',
             required = True, enum = PList [PStr ''a'', PStr ''''],
             items_type = PStr ''string'', type_index = 0, items_type_index = 0\<rparr>"
  have run: "parameter_input (example_widgets ''a,'') example_string_param ''i1'' = Inr ?p"
    by (simp add: parameter_input_def parse_enum_values FunctionParameter_init_def
        PARAM_TYPES_def bind_err_def Let_def)
  from parameter_input_enum_segments [OF run]
  obtain es where "enum ?p = PList (map PStr es)" and "length es = Suc (count_list ''a,'' CHR '','')"
    and "es = [''a'', '''']"
    by auto
  then have "count_list ''a,'' CHR '','' = 1" by simp
  with run show ?thesis by simp
qed

section \<open>The schema that build_json_schema returns\<close>

text \<open>Assigning to a key that the dictionary does not hold appends the entry.\<close>

lemma update_fresh: "k \<notin> set (map fst al) \<Longrightarrow> AList.update k v al = al @ [(k, v)]"
  by (induction al) auto

lemma fold_add_property_map_of:
  "map_of (fold add_property ps acc) =
     map_of acc ++ map_of (rev (map property_entry (filter (\<lambda>p. name p \<noteq> []) ps)))"
  by (induction ps arbitrary: acc) (auto simp: update_conv' fun_eq_iff map_add_def split: option.splits)

lemma fold_add_property_distinct:
  "distinct (map fst acc) \<Longrightarrow> distinct (map fst (fold add_property ps acc))"
  by (induction ps arbitrary: acc) (auto simp: distinct_update)

lemma fold_add_property_keys:
  "set (map fst (fold add_property ps acc)) =
     set (map fst acc) \<union> set (map name (filter (\<lambda>p. name p \<noteq> []) ps))"
proof (induction ps arbitrary: acc)
  case Nil
  then show ?case by simp
next
  case (Cons p ps)
  show ?case
    using Cons.IH [of "add_property p acc"] dom_update [of "name p" "PDict (build_property p)" acc]
    by (auto simp: image_iff)
qed

lemma fold_add_property_distinct_names:
  "distinct (map name (filter (\<lambda>p. name p \<noteq> []) ps)) \<Longrightarrow>
   set (map fst acc) \<inter> set (map name (filter (\<lambda>p. name p \<noteq> []) ps)) = {} \<Longrightarrow>
   fold add_property ps acc = acc @ map property_entry (filter (\<lambda>p. name p \<noteq> []) ps)"
proof (induction ps arbitrary: acc)
  case Nil
  then show ?case by simp
next
  case (Cons p ps)
  show ?case
  proof (cases "name p = []")
    case True
    with Cons show ?thesis by simp
  next
    case False
    with Cons.prems have fresh: "name p \<notin> set (map fst acc)" by auto
    have "set (map fst (acc @ [property_entry p]))
            \<inter> set (map name (filter (\<lambda>p. name p \<noteq> []) ps)) = {}"
      using Cons.prems False by auto
    with Cons.IH [of "acc @ [property_entry p]"] Cons.prems(1) False fresh
    show ?thesis by (simp add: update_fresh)
  qed
qed

lemma map_of_rev_last:
  "map_of (rev (map (\<lambda>q. (f q, g q)) xs)) k =
     (if filter (\<lambda>q. f q = k) xs = [] then None
      else Some (g (last (filter (\<lambda>q. f q = k) xs))))"
  by (induction xs rule: rev_induct) auto


lemma build_property_shape:
  "map_of (build_property p) ''type'' = Some (type p)
   \<and> map_of (build_property p) ''description'' = Some (description p)
   \<and> map_of (build_property p) ''enum'' =
       (if type p \<in> {PStr ''string'', PStr ''number'', PStr ''integer''} \<and> truthy (enum p)
        then Some (enum p) else None)
   \<and> map_of (build_property p) ''items'' =
       (if type p = PStr ''array'' then Some (PDict [(''type'', items_type p)]) else None)
   \<and> set (map fst (build_property p)) \<subseteq> {''type'', ''description'', ''enum'', ''items''}"
  by (simp add: build_property_def Let_def)

lemma build_json_schema_unfold:
  "fst (build_json_schema json_dumps fn fd params) =
     PDict [(''name'', fn), (''description'', fd),
            (''parameters'',
             PDict ([(''type'', PStr ''object''),
                     (''properties'', PDict (fold add_property (map snd params) []))]
                    @ (if map name (filter (\<lambda>p. required p \<and> name p \<noteq> []) (map snd params)) = []
                       then []
                       else [(''required'', PList (map PStr (map name
                               (filter (\<lambda>p. required p \<and> name p \<noteq> []) (map snd params)))))])))]"
  by (simp add: build_json_schema_def Let_def)

lemma inj_example_ids: "inj example_ids"
proof (rule injI)
  fix m n :: nat
  assume "example_ids m = example_ids n"
  then have "length (example_ids m) = length (example_ids n)" by simp
  then show "m = n" by simp
qed

lemmas schema_defs =
  convert_openai_function_to_aistream_dict_def build_json_schema_def build_property_def
  convert_param_def FunctionParameter_init_def PARAM_TYPES_def bind_err_def Let_def

text \<open>
  Claim C4, as it is stated, at a mapping with two parameters named \<open>x\<close> (a required string
  with an enum, then an optional boolean): the schema has one property for the two named
  parameters, the one of the second, and it holds no enum although the first parameter is
  a string with a non-empty enum. One property per named parameter would be the list in
  the second equation.
\<close>

theorem duplicate_names_counterexample:
  "fst (build_json_schema (\<lambda>v. '''') (PStr ''f'') (PStr ''d'')
         [(''a'', example_string_param), (''b'', example_boolean_param)])
   = PDict [(''name'', PStr ''f''), (''description'', PStr ''d''),
            (''parameters'', PDict [(''type'', PStr ''object''),
               (''properties'', PDict [(''x'', PDict [(''type'', PStr ''boolean''),
                                                      (''description'', PStr ''b'')])]),
               (''required'', PList [PStr ''x''])])]
   \<and> map property_entry (named [(''a'', example_string_param), (''b'', example_boolean_param)])
   = [(''x'', PDict [(''type'', PStr ''string''), (''description'', PStr ''a''),
                     (''enum'', PList [PStr ''u''])]),
      (''x'', PDict [(''type'', PStr ''boolean''), (''description'', PStr ''b'')])]"
  by (simp add: schema_defs)

text \<open>
  Claim C4, amended. For every parameter mapping, the schema has one property for each
  non-empty name of the mapping, built from the last parameter that bears the name; when
  the non-empty names are pairwise distinct, these are the properties of the named
  parameters, one each, in the order of the mapping. The property of a parameter holds its
  type and its description, holds its enum exactly when the type is string, number or
  integer and the enum is non-empty, holds \<open>items\<close> with the items type exactly when the
  type is array, and holds no other key. The required list holds the names of the named
  parameters flagged required, one entry for each of them, in the order of the mapping, and
  the key \<open>required\<close> is left out when that list is empty. The second component is the
  JSON text of the schema.
\<close>

theorem build_json_schema_shape:
  "\<exists>props.
     build_json_schema json_dumps fn fd params =
       (PDict [(''name'', fn), (''description'', fd),
               (''parameters'',
                PDict ([(''type'', PStr ''object''), (''properties'', PDict props)]
                  @ (if filter (\<lambda>p. required p \<and> name p \<noteq> []) (map snd params) = [] then []
                     else [(''required'', PList (map (\<lambda>p. PStr (name p))
                             (filter (\<lambda>p. required p \<and> name p \<noteq> []) (map snd params))))])))],
        json_dumps (fst (build_json_schema json_dumps fn fd params)))
     \<and> distinct (map fst props)
     \<and> set (map fst props) = set (map name (named params))
     \<and> (\<forall>k \<in> set (map fst props).
           map_of props k = Some (PDict (build_property (last (filter (\<lambda>q. name q = k) (named params))))))
     \<and> (distinct (map name (named params)) \<longrightarrow> props = map property_entry (named params))
     \<and> map_of (build_property p) ''type'' = Some (type p)
     \<and> map_of (build_property p) ''description'' = Some (description p)
     \<and> map_of (build_property p) ''enum'' =
         (if type p \<in> {PStr ''string'', PStr ''number'', PStr ''integer''} \<and> truthy (enum p)
          then Some (enum p) else None)
     \<and> map_of (build_property p) ''items'' =
         (if type p = PStr ''array'' then Some (PDict [(''type'', items_type p)]) else None)
     \<and> set (map fst (build_property p)) \<subseteq> {''type'', ''description'', ''enum'', ''items''}"
proof -
  let ?props = "fold add_property (map snd params) []"
  have s: "build_json_schema json_dumps fn fd params =
       (PDict [(''name'', fn), (''description'', fd),
               (''parameters'',
                PDict ([(''type'', PStr ''object''), (''properties'', PDict ?props)]
                  @ (if filter (\<lambda>p. required p \<and> name p \<noteq> []) (map snd params) = [] then []
                     else [(''required'', PList (map (\<lambda>p. PStr (name p))
                             (filter (\<lambda>p. required p \<and> name p \<noteq> []) (map snd params))))])))],
        json_dumps (fst (build_json_schema json_dumps fn fd params)))"
    by (simp add: build_json_schema_def Let_def comp_def)
  have d: "distinct (map fst ?props)"
    by (rule fold_add_property_distinct) simp
  have k: "set (map fst ?props) = set (map name (named params))"
    using fold_add_property_keys [of "map snd params" "[]"] by simp
  have m: "map_of ?props k =
             Some (PDict (build_property (last (filter (\<lambda>q. name q = k) (named params)))))"
    if "k \<in> set (map fst ?props)" for k
  proof -
    from that k have "filter (\<lambda>q. name q = k) (named params) \<noteq> []"
      by (auto simp: filter_empty_conv)
    then show ?thesis
      using map_of_rev_last [of name "\<lambda>q. PDict (build_property q)" "named params" k]
      by (simp add: fold_add_property_map_of)
  qed
  have x: "?props = map property_entry (named params)" if "distinct (map name (named params))"
    using fold_add_property_distinct_names [of "map snd params" "[]"] that by simp
  from s d k m x build_property_shape [of p] show ?thesis by blast
qed


theorem build_json_schema_shape_witness:
  "build_json_schema (\<lambda>v. ''{}'') (PStr ''f'') (PStr ''d'')
         [(''a'', example_string_param), (''b'', example_unnamed_param),
          (''c'', example_array_param)]
   = (PDict [(''name'', PStr ''f''), (''description'', PStr ''d''),
            (''parameters'', PDict [(''type'', PStr ''object''),
               (''properties'', PDict [
                  (''x'', PDict [(''type'', PStr ''string''), (''description'', PStr ''a''),
                                 (''enum'', PList [PStr ''u''])]),
                  (''xs'', PDict [(''type'', PStr ''array''), (''description'', PStr ''c''),
                                  (''items'', PDict [(''type'', PStr ''integer'')])])]),
               (''required'', PList [PStr ''x''])])], ''{}'')"
proof -
  let ?params = "[(''a'', example_string_param), (''b'', example_unnamed_param),
                  (''c'', example_array_param)]"
  from build_json_schema_shape [of "\<lambda>v. ''{}''" "PStr ''f''" "PStr ''d''" ?params]
  obtain props where
    s: "build_json_schema (\<lambda>v. ''{}'') (PStr ''f'') (PStr ''d'') ?params =
          (PDict [(''name'', PStr ''f''), (''description'', PStr ''d''),
               (''parameters'',
                PDict ([(''type'', PStr ''object''), (''properties'', PDict props)]
                  @ (if filter (\<lambda>p. required p \<and> name p \<noteq> []) (map snd ?params) = [] then []
                     else [(''required'', PList (map (\<lambda>p. PStr (name p))
                             (filter (\<lambda>p. required p \<and> name p \<noteq> []) (map snd ?params))))])))],
           (\<lambda>v. ''{}'') (fst (build_json_schema (\<lambda>v. ''{}'') (PStr ''f'') (PStr ''d'') ?params)))"
    and d: "distinct (map name (named ?params)) \<longrightarrow> props = map property_entry (named ?params)"
    by blast
  from d have "props = map property_entry (named ?params)" by simp
  then show ?thesis unfolding s by (simp add: build_property_def Let_def)
qed

section \<open>From the schema back to the parameters\<close>

lemma list_index_nth:
  "distinct xs \<Longrightarrow> i < length xs \<Longrightarrow> list_index xs (xs ! i) = Inr i"
proof (induction xs arbitrary: i)
  case Nil
  then show ?case by simp
next
  case (Cons x xs)
  then show ?case by (cases i) (auto simp: bind_err_def)
qed

lemma distinct_PARAM_TYPES: "distinct (map PStr PARAM_TYPES)"
  by (simp add: PARAM_TYPES_def)

lemma indexes_match_lookup:
  assumes "indexes_match p"
  shows "list_index (map PStr PARAM_TYPES) (type p) = Inr (type_index p)"
    and "list_index (map PStr PARAM_TYPES) (items_type p) = Inr (items_type_index p)"
  using assms list_index_nth [OF distinct_PARAM_TYPES, of "type_index p"]
    list_index_nth [OF distinct_PARAM_TYPES, of "items_type_index p"]
  by (auto simp: indexes_match_def)

lemma list_index_string: "list_index (map PStr PARAM_TYPES) (PStr ''string'') = Inr 0"
  by (simp add: PARAM_TYPES_def)

lemma convert_param_build_property:
  assumes "indexes_match p"
  shows "convert_param (PList (map PStr req)) (name p) (PDict (build_property p)) =
           Inr ((round_trip_image p)\<lparr>required := name p \<in> set req\<rparr>)"
proof -
  let ?e = "if type p \<in> {PStr ''string'', PStr ''number'', PStr ''integer''} \<and> truthy (enum p)
            then enum p else PList []"
  let ?items = "if type p = PStr ''array'' then PDict [(''type'', items_type p)] else PDict []"
  let ?it = "if type p = PStr ''array'' then items_type p else PStr ''string''"
  let ?ii = "if type p = PStr ''array'' then items_type_index p else 0"
  have g1: "py_getitem (PDict (build_property p)) ''description'' = Inr (description p)"
    and g2: "py_getitem (PDict (build_property p)) ''type'' = Inr (type p)"
    and g3: "py_get (PDict (build_property p)) ''enum'' (PList []) = Inr ?e"
    and g4: "py_get (PDict (build_property p)) ''items'' (PDict []) = Inr ?items"
    using build_property_shape [of p] by simp_all
  have g5: "py_get ?items ''type'' (PStr ''string'') = Inr ?it"
    by simp
  have c: "py_contains (name p) (PList (map PStr req)) = Inr (name p \<in> set req)"
    by auto
  have i1: "list_index (map PStr PARAM_TYPES) (type p) = Inr (type_index p)"
    by (rule indexes_match_lookup [OF assms])
  have i2: "list_index (map PStr PARAM_TYPES) ?it = Inr ?ii"
    using indexes_match_lookup(2) [OF assms] list_index_string by simp
  have "convert_param (PList (map PStr req)) (name p) (PDict (build_property p)) =
          FunctionParameter_init (name p) (description p) (type p) (name p \<in> set req) ?e ?it"
    unfolding convert_param_def by (simp only: g1 g2 g3 g4 g5 c bind_err_def sum.case)
  also have "\<dots> =
          Inr \<lparr>name = name p, description = description p, type = type p,
               required = name p \<in> set req, enum = ?e, items_type = ?it,
               type_index = type_index p, items_type_index = ?ii\<rparr>"
    unfolding FunctionParameter_init_def by (simp only: i1 i2 bind_err_def sum.case)
  also have "\<dots> = Inr ((round_trip_image p)\<lparr>required := name p \<in> set req\<rparr>)"
    by (cases p) (simp add: round_trip_image_def)
  finally show ?thesis .
qed


lemma convert_params_build:
  assumes "inj create_id"
      and "list_all indexes_match xs"
      and "list_all (\<lambda>p. (name p \<in> set req) = required p) xs"
      and "set (map fst acc) \<subseteq> create_id ` {..<n}"
  shows "convert_params create_id (PList (map PStr req)) n (map property_entry xs) acc =
           Inr (acc @ zip (map create_id [n..<n + length xs]) (map round_trip_image xs))"
  using assms(2-)
proof (induction xs arbitrary: n acc)
  case Nil
  then show ?case by simp
next
  case (Cons x xs)
  let ?y = "round_trip_image x"
  from Cons.prems have x: "indexes_match x" and r: "(name x \<in> set req) = required x"
    by simp_all
  have cp: "convert_param (PList (map PStr req)) (name x) (PDict (build_property x)) = Inr ?y"
    using convert_param_build_property [OF x, of req] r
    by (cases x) (simp add: round_trip_image_def)
  have fresh: "create_id n \<notin> set (map fst acc)"
  proof
    assume "create_id n \<in> set (map fst acc)"
    with Cons.prems(3) obtain m where "m < n" "create_id n = create_id m" by auto
    with assms(1) show False by (auto dest: injD)
  qed
  have keys: "set (map fst (acc @ [(create_id n, ?y)])) \<subseteq> create_id ` {..<Suc n}"
    using Cons.prems(3) by (auto simp: lessThan_Suc)
  have "convert_params create_id (PList (map PStr req)) n (map property_entry (x # xs)) acc =
          convert_params create_id (PList (map PStr req)) (Suc n) (map property_entry xs)
            (acc @ [(create_id n, ?y)])"
    by (simp add: cp update_fresh [OF fresh] Let_def del: convert_param_def)
  also have "\<dots> = Inr ((acc @ [(create_id n, ?y)])
                 @ zip (map create_id [Suc n..<Suc n + length xs]) (map round_trip_image xs))"
    using Cons.prems by (intro Cons.IH keys) simp_all
  also have "\<dots> = Inr (acc @ zip (map create_id [n..<n + length (x # xs)])
                 (map round_trip_image (x # xs)))"
    by (simp add: upt_conv_Cons del: upt_Suc)
  finally show ?case .
qed

lemma required_names_iff:
  assumes "distinct (map name (filter (\<lambda>p. name p \<noteq> []) ps))"
      and "p \<in> set ps" and "name p \<noteq> []"
  shows "(name p \<in> set (map name (filter (\<lambda>q. required q \<and> name q \<noteq> []) ps))) = required p"
proof
  assume "name p \<in> set (map name (filter (\<lambda>q. required q \<and> name q \<noteq> []) ps))"
  then obtain q where q: "q \<in> set ps" "required q" "name q \<noteq> []" "name q = name p"
    by auto
  have "inj_on name (set (filter (\<lambda>p. name p \<noteq> []) ps))"
    using assms(1) by (simp add: distinct_map)
  with q assms(2,3) have "q = p" by (auto dest: inj_onD)
  with q show "required p" by simp
next
  assume "required p"
  with assms(2,3) show "name p \<in> set (map name (filter (\<lambda>q. required q \<and> name q \<noteq> []) ps))"
    by auto
qed

lemma round_trip_image_fields:
  "name (round_trip_image p) = name p \<and> description (round_trip_image p) = description p
   \<and> type (round_trip_image p) = type p \<and> required (round_trip_image p) = required p
   \<and> type_index (round_trip_image p) = type_index p
   \<and> enum (round_trip_image p) =
       (if type p \<in> {PStr ''string'', PStr ''number'', PStr ''integer''} \<and> truthy (enum p)
        then enum p else PList [])
   \<and> items_type (round_trip_image p) =
       (if type p = PStr ''array'' then items_type p else PStr ''string'')"
  by (simp add: round_trip_image_def)

lemma parameter_input_round_trip_image:
  assumes "parameter_input w param param_id = Inr p"
  shows "round_trip_image p = p"
proof -
  from assms obtain new_enum where
    e: "new_enum = [] \<or> type_select w \<in> set [''string'', ''number'', ''integer'']" and
    init: "FunctionParameter_init (name_input w) (PStr (description_input w))
             (PStr (type_select w)) (required_checkbox w) (PList (map PStr new_enum))
             (PStr (if type_select w = ''array'' then items_type_select w else ''string'')) = Inr p"
    by (auto simp: parameter_input_def bind_err_def Let_def split: sum.splits if_splits)
  from init obtain ti ii where
    ii: "list_index (map PStr PARAM_TYPES)
           (PStr (if type_select w = ''array'' then items_type_select w else ''string'')) = Inr ii"
    and p: "p = \<lparr>name = name_input w, description = PStr (description_input w),
                 type = PStr (type_select w), required = required_checkbox w,
                 enum = PList (map PStr new_enum),
                 items_type = PStr (if type_select w = ''array'' then items_type_select w
                                    else ''string''),
                 type_index = ti, items_type_index = ii\<rparr>"
    by (auto simp: FunctionParameter_init_def bind_err_def split: sum.splits)
  have "type_select w \<noteq> ''array'' \<Longrightarrow> ii = 0"
    using ii list_index_string by simp
  with e p show ?thesis
    by (auto simp: round_trip_image_def)
qed

text \<open>
  Claim C3, as it is stated, at three mappings. Two parameters named \<open>x\<close>: one parameter
  comes back, which is neither of the two (the description and the type of the second, the
  required flag of the first). A boolean parameter with an enum comes back with an empty
  enum. A string parameter with the items type \<open>number\<close> comes back with the items type
  \<open>string\<close>.
\<close>

theorem round_trip_counterexample:
  "convert_openai_function_to_aistream_dict (\<lambda>s. Inl JSONDecodeError) example_ids (PStr ''S'')
     (fst (build_json_schema (\<lambda>v. '''') (PStr ''f'') (PStr ''d'')
        [(''a'', example_string_param), (''b'', example_boolean_param)]))
   = Inr \<lparr>entries = [(''schema_name'', PStr ''S''), (''name'', PStr ''f''),
                    (''description'', PStr ''d'')],
          parameters = Some [(''i'', example_boolean_param\<lparr>required := True\<rparr>)]\<rparr>
   \<and> convert_openai_function_to_aistream_dict (\<lambda>s. Inl JSONDecodeError) example_ids (PStr ''S'')
     (fst (build_json_schema (\<lambda>v. '''') (PStr ''f'') (PStr ''d'') [(''a'', example_flag_param)]))
   = Inr \<lparr>entries = [(''schema_name'', PStr ''S''), (''name'', PStr ''f''),
                    (''description'', PStr ''d'')],
          parameters = Some [(''i'', example_flag_param\<lparr>enum := PList []\<rparr>)]\<rparr>
   \<and> convert_openai_function_to_aistream_dict (\<lambda>s. Inl JSONDecodeError) example_ids (PStr ''S'')
     (fst (build_json_schema (\<lambda>v. '''') (PStr ''f'') (PStr ''d'') [(''a'', example_items_param)]))
   = Inr \<lparr>entries = [(''schema_name'', PStr ''S''), (''name'', PStr ''f''),
                    (''description'', PStr ''d'')],
          parameters = Some [(''i'', example_items_param\<lparr>items_type := PStr ''string'',
                                      items_type_index := 0\<rparr>)]\<rparr>"
  by (simp add: schema_defs)

text \<open>
  Claim C3, amended. For every parameter mapping whose non-empty names are pairwise
  distinct, whose named parameters have the indexes their construction gives them, and for
  identifiers that \<open>create_id\<close> never repeats, building the schema and converting it back
  succeeds and yields, under fresh identifiers and in the order of the mapping, one
  parameter for each named parameter: its name, description, type, required flag and type
  index are unchanged; its enum is unchanged when the type is string, number or integer,
  and empty otherwise; its items type is unchanged when the type is array, and \<open>string\<close>
  otherwise. Parameters with an empty name are absent from the result.
\<close>

theorem schema_round_trip:
  assumes "distinct (map name (named params))"
      and "list_all indexes_match (named params)"
      and "inj create_id"
  shows "convert_openai_function_to_aistream_dict json_loads create_id schema_name
           (fst (build_json_schema json_dumps fn fd params)) =
         Inr \<lparr>entries = [(''schema_name'', schema_name), (''name'', fn), (''description'', fd)],
              parameters = Some (zip (map create_id [0..<length (named params)])
                                     (map round_trip_image (named params)))\<rparr>"
proof -
  define req where "req = map name (filter (\<lambda>p. required p \<and> name p \<noteq> []) (map snd params))"
  define props where "props = map property_entry (named params)"
  define sp where "sp = [(''type'', PStr ''object''), (''properties'', PDict props)]
                     @ (if req = [] then [] else [(''required'', PList (map PStr req))])"
  have fold_props: "fold add_property (map snd params) [] = props"
    unfolding props_def
    using fold_add_property_distinct_names [of "map snd params" "[]"] assms(1) by simp
  have s: "fst (build_json_schema json_dumps fn fd params) =
             PDict [(''name'', fn), (''description'', fd), (''parameters'', PDict sp)]"
    unfolding build_json_schema_unfold fold_props sp_def req_def ..
  have l1: "py_get (PDict sp) ''required'' (PList []) = Inr (PList (map PStr req))"
    unfolding sp_def by simp
  have l2: "py_getitem (PDict sp) ''properties'' = Inr (PDict props)"
    unfolding sp_def by simp
  have r: "list_all (\<lambda>p. (name p \<in> set req) = required p) (named params)"
    unfolding list_all_iff req_def
    using required_names_iff [OF assms(1)] by simp
  have cp: "convert_params create_id (PList (map PStr req)) 0 props [] =
            Inr (zip (map create_id [0..<length (named params)])
                     (map round_trip_image (named params)))"
    unfolding props_def
    using convert_params_build [OF assms(3) assms(2) r, of "[]" 0] by simp
  have t: "py_get (PDict [(''name'', fn), (''description'', fd), (''parameters'', PDict sp)])
             ''name'' PNone = Inr fn"
          "py_get (PDict [(''name'', fn), (''description'', fd), (''parameters'', PDict sp)])
             ''description'' PNone = Inr fd"
          "py_get (PDict [(''name'', fn), (''description'', fd), (''parameters'', PDict sp)])
             ''parameters'' PNone = Inr (PDict sp)"
    by simp_all
  show ?thesis
    unfolding convert_openai_function_to_aistream_dict_def s
    by (simp add: bind_err_def t l1 l2 cp del: py_get.simps py_getitem.simps)
qed


theorem schema_round_trip_witness:
  "convert_openai_function_to_aistream_dict (\<lambda>s. Inl JSONDecodeError) example_ids (PStr ''S'')
     (fst (build_json_schema (\<lambda>v. '''') (PStr ''f'') (PStr ''d'')
        [(''a'', example_string_param), (''b'', example_unnamed_param),
         (''c'', example_array_param)]))
   = Inr \<lparr>entries = [(''schema_name'', PStr ''S''), (''name'', PStr ''f''),
                    (''description'', PStr ''d'')],
          parameters = Some [(''i'', example_string_param), (''ii'', example_array_param)]\<rparr>"
  using schema_round_trip [of "[(''a'', example_string_param), (''b'', example_unnamed_param),
         (''c'', example_array_param)]" example_ids "\<lambda>s. Inl JSONDecodeError" "PStr ''S''"
         "\<lambda>v. ''''" "PStr ''f''" "PStr ''d''"] inj_example_ids
  by (simp add: indexes_match_def PARAM_TYPES_def round_trip_image_def upt_rec)


end
